theory Spec2Isabelle
  imports Complex_Main
begin

section \<open>Tensors and the framework primitives the model is built from\<close>

text \<open>
  The source file \<^verbatim>\<open>codes/models/audio/music/transformer_diffusion14.py\<close> wires
  framework layers into a denoiser.  Every tensor that flows through the modules of this
  file has three dimensions (batch, channels, sequence) and is modelled as a nested list
  of reals; arithmetic is exact.  Mixed precision (\<^verbatim>\<open>torch.autocast\<close>,
  \<^verbatim>\<open>x.float()\<close>), devices and gradient checkpointing change no value in exact
  arithmetic and are left out.  A tensor with an empty batch or channel dimension has no
  recoverable sequence length in this representation; such tensors are outside the model.

  Exceptions are values: every operation that raises in the framework on a shape mismatch
  returns \<open>Inl\<close> of the error.
\<close>

datatype error = TypeError | ValueError | RuntimeError | AttributeError

type_synonym tensor = "real list list list"

definition bindE :: "error + 'a \<Rightarrow> ('a \<Rightarrow> error + 'b) \<Rightarrow> error + 'b" where
  "bindE r f = (case r of Inl e \<Rightarrow> Inl e | Inr v \<Rightarrow> f v)"

text \<open>\<^verbatim>\<open>t.shape[0]\<close>, \<^verbatim>\<open>t.shape[1]\<close> and \<^verbatim>\<open>t.shape[-1]\<close>.\<close>

definition size0 :: "'a list list list \<Rightarrow> nat" where
  "size0 t = length t"

definition size1 :: "'a list list list \<Rightarrow> nat" where
  "size1 t = (case t of [] \<Rightarrow> 0 | b # _ \<Rightarrow> length b)"

definition size2 :: "'a list list list \<Rightarrow> nat" where
  "size2 t = (case t of [] \<Rightarrow> 0 | b # _ \<Rightarrow> (case b of [] \<Rightarrow> 0 | r # _ \<Rightarrow> length r))"

text \<open>A nested list is a tensor of shape \<open>(B, C, L)\<close> when it is rectangular.\<close>

definition has_shape :: "nat \<Rightarrow> nat \<Rightarrow> nat \<Rightarrow> 'a list list list \<Rightarrow> bool" where
  "has_shape B C L t \<longleftrightarrow>
     length t = B \<and> list_all (\<lambda>b. length b = C \<and> list_all (\<lambda>r. length r = L) b) t"

subsection \<open>Broadcasting, \<^verbatim>\<open>torch.where\<close>, addition\<close>

definition bdim :: "nat \<Rightarrow> nat \<Rightarrow> nat option" where
  "bdim n m = (if n = m then Some n else if n = 1 then Some m else if m = 1 then Some n else None)"

definition bshape :: "nat \<times> nat \<times> nat \<Rightarrow> nat \<times> nat \<times> nat \<Rightarrow> (nat \<times> nat \<times> nat) option" where
  "bshape s t =
     (case (bdim (fst s) (fst t), bdim (fst (snd s)) (fst (snd t)), bdim (snd (snd s)) (snd (snd t))) of
        (Some d0, Some d1, Some d2) \<Rightarrow> Some (d0, d1, d2)
      | _ \<Rightarrow> None)"

definition shape :: "'a list list list \<Rightarrow> nat \<times> nat \<times> nat" where
  "shape t = (size0 t, size1 t, size2 t)"

text \<open>A dimension of size one is read at index 0 whatever the index asked for.\<close>

definition expand :: "nat \<Rightarrow> nat \<Rightarrow> nat \<Rightarrow> 'a list list list \<Rightarrow> 'a list list list" where
  "expand B C L t =
     map (\<lambda>b. map (\<lambda>c. map (\<lambda>l.
         t ! (if size0 t = 1 then 0 else b) ! (if size1 t = 1 then 0 else c) ! (if size2 t = 1 then 0 else l))
       [0..<L]) [0..<C]) [0..<B]"

definition tmap2 :: "('a \<Rightarrow> 'b \<Rightarrow> 'c) \<Rightarrow> 'a list list list \<Rightarrow> 'b list list list \<Rightarrow> 'c list list list" where
  "tmap2 f a b = map2 (map2 (map2 f)) a b"

definition torch_where :: "bool list list list \<Rightarrow> tensor \<Rightarrow> tensor \<Rightarrow> error + tensor" where
  "torch_where cond a b =
     (case bshape (shape a) (shape b) of
        None \<Rightarrow> Inl RuntimeError
      | Some s \<Rightarrow>
         (case bshape (shape cond) s of
            None \<Rightarrow> Inl RuntimeError
          | Some (B, C, L) \<Rightarrow>
              Inr (tmap2 (\<lambda>c xy. if c then fst xy else snd xy) (expand B C L cond)
                     (tmap2 Pair (expand B C L a) (expand B C L b)))))"

definition tensor_add :: "tensor \<Rightarrow> tensor \<Rightarrow> error + tensor" where
  "tensor_add a b =
     (case bshape (shape a) (shape b) of
        None \<Rightarrow> Inl RuntimeError
      | Some (B, C, L) \<Rightarrow> Inr (tmap2 (+) (expand B C L a) (expand B C L b)))"

definition add_scalar :: "tensor \<Rightarrow> real \<Rightarrow> tensor" where
  "add_scalar t s = map (map (map (\<lambda>v. v + s))) t"

text \<open>\<^verbatim>\<open>t.repeat(n0, n1, n2)\<close> tiles a three-dimensional tensor along each dimension.\<close>

definition tile :: "nat \<Rightarrow> 'a list \<Rightarrow> 'a list" where
  "tile n xs = concat (replicate n xs)"

definition repeat :: "tensor \<Rightarrow> nat \<Rightarrow> nat \<Rightarrow> nat \<Rightarrow> tensor" where
  "repeat t n0 n1 n2 = tile n0 (map (\<lambda>b. tile n1 (map (tile n2) b)) t)"

text \<open>\<^verbatim>\<open>torch.cat\<close> along the channel dimension (\<^verbatim>\<open>dim=1\<close>) and along the
  sequence dimension (\<^verbatim>\<open>dim=-1\<close>): all other dimensions must agree.\<close>

definition cat_channels :: "tensor \<Rightarrow> tensor \<Rightarrow> error + tensor" where
  "cat_channels a b =
     (if size0 a = size0 b \<and> size2 a = size2 b then Inr (map2 (@) a b) else Inl RuntimeError)"

definition cat_sequence :: "tensor \<Rightarrow> tensor \<Rightarrow> error + tensor" where
  "cat_sequence a b =
     (if size0 a = size0 b \<and> size1 a = size1 b then Inr (map2 (map2 (@)) a b) else Inl RuntimeError)"

text \<open>\<^verbatim>\<open>F.interpolate(t, size=n, mode='nearest')\<close>: output position \<open>i\<close> reads input
  position \<open>\<lfloor>i * L / n\<rfloor>\<close>; empty inputs and an empty target size are refused.\<close>

definition interpolate_nearest :: "tensor \<Rightarrow> nat \<Rightarrow> error + tensor" where
  "interpolate_nearest t n =
     (if size2 t = 0 \<or> n = 0 then Inl RuntimeError
      else Inr (map (map (\<lambda>r. map (\<lambda>i. r ! (i * length r div n)) [0..<n])) t))"

subsection \<open>Framework layers\<close>

text \<open>
  \<^verbatim>\<open>nn.Conv1d(in_channels, out_channels, kernel_size, padding=p, bias=...)\<close>, stride 1:
  \<open>out[b][o][t] = bias[o] + \<Sum>c j. weight[o][c][j] * padded(x[b][c])[t + j]\<close>.
  The input must have \<open>in_channels\<close> channels and, padded, be at least as long as the
  kernel.
\<close>

record Conv1d =
  conv_in_channels :: nat
  conv_out_channels :: nat
  conv_kernel_size :: nat
  conv_padding :: nat
  conv_weight :: "real list list list"
  conv_bias :: "real list option"

definition pad_row :: "nat \<Rightarrow> real list \<Rightarrow> real list" where
  "pad_row p r = replicate p 0 @ r @ replicate p 0"

definition conv_bias_at :: "Conv1d \<Rightarrow> nat \<Rightarrow> real" where
  "conv_bias_at cv oc = (case conv_bias cv of None \<Rightarrow> 0 | Some bs \<Rightarrow> bs ! oc)"

definition conv_at :: "Conv1d \<Rightarrow> real list list \<Rightarrow> nat \<Rightarrow> nat \<Rightarrow> real" where
  "conv_at cv xb oc t =
     conv_bias_at cv oc +
     (\<Sum>c\<leftarrow>[0..<conv_in_channels cv]. \<Sum>j\<leftarrow>[0..<conv_kernel_size cv].
        conv_weight cv ! oc ! c ! j * pad_row (conv_padding cv) (xb ! c) ! (t + j))"

definition conv_batch :: "Conv1d \<Rightarrow> real list list \<Rightarrow> real list list" where
  "conv_batch cv xb =
     map (\<lambda>oc. map (conv_at cv xb oc)
                [0..<(case xb of [] \<Rightarrow> 0 | r # _ \<Rightarrow> length r) + 2 * conv_padding cv + 1 - conv_kernel_size cv])
       [0..<conv_out_channels cv]"

definition Conv1d_forward :: "Conv1d \<Rightarrow> tensor \<Rightarrow> error + tensor" where
  "Conv1d_forward cv x =
     (if size1 x \<noteq> conv_in_channels cv \<or> size2 x + 2 * conv_padding cv < conv_kernel_size cv
      then Inl RuntimeError
      else Inr (map (conv_batch cv) x))"

text \<open>\<^verbatim>\<open>nn.Linear(in_features, out_features)\<close> on a matrix of row vectors.\<close>

record Linear =
  lin_in_features :: nat
  lin_out_features :: nat
  lin_weight :: "real list list"
  lin_bias :: "real list"

definition Linear_forward :: "Linear \<Rightarrow> real list list \<Rightarrow> error + real list list" where
  "Linear_forward lin x =
     (if (case x of [] \<Rightarrow> 0 | r # _ \<Rightarrow> length r) \<noteq> lin_in_features lin then Inl RuntimeError
      else Inr (map (\<lambda>r. map (\<lambda>oc. lin_bias lin ! oc + (\<Sum>i\<leftarrow>[0..<lin_in_features lin]. lin_weight lin ! oc ! i * r ! i))
                             [0..<lin_out_features lin]) x))"

text \<open>
  \<^verbatim>\<open>nn.GroupNorm(num_groups, num_channels)\<close>: within every batch element the channels
  are split into \<open>num_groups\<close> consecutive groups; each group is shifted by its mean and
  divided by the root of its (biased) variance plus \<open>eps\<close>, then every channel is scaled
  and shifted by its own weight and bias.
\<close>

record GroupNorm =
  num_groups :: nat
  num_channels :: nat
  gn_weight :: "real list"
  gn_bias :: "real list"
  gn_eps :: real

definition mean :: "real list \<Rightarrow> real" where
  "mean xs = sum_list xs / real (length xs)"

definition group_norm_batch :: "GroupNorm \<Rightarrow> real list list \<Rightarrow> real list list" where
  "group_norm_batch gn xb =
     map (\<lambda>c.
        let n = num_channels gn div num_groups gn;
            vals = concat (take n (drop ((c div n) * n) xb));
            mu = mean vals;
            var = mean (map (\<lambda>v. (v - mu)\<^sup>2) vals)
        in map (\<lambda>v. (v - mu) / sqrt (var + gn_eps gn) * gn_weight gn ! c + gn_bias gn ! c) (xb ! c))
       [0..<num_channels gn]"

definition GroupNorm_forward :: "GroupNorm \<Rightarrow> tensor \<Rightarrow> error + tensor" where
  "GroupNorm_forward gn x =
     (if size1 x \<noteq> num_channels gn then Inl RuntimeError else Inr (map (group_norm_batch gn) x))"

text \<open>
  \<^verbatim>\<open>nn.Dropout(p)\<close>.  In training mode every element is either zeroed or divided
  by \<open>1 - p\<close>; which elements are kept is drawn by the framework and is an explicit
  argument here (\<open>keep b c l\<close>).  In evaluation mode the layer is the identity.
\<close>

record Dropout =
  drop_p :: real
  drop_training :: bool

type_synonym keep = "nat \<Rightarrow> nat \<Rightarrow> nat \<Rightarrow> bool"

definition Dropout_forward :: "Dropout \<Rightarrow> keep \<Rightarrow> tensor \<Rightarrow> tensor" where
  "Dropout_forward d k x =
     (if drop_training d
      then map (\<lambda>(b, xb). map (\<lambda>(c, r). map (\<lambda>(l, v). if k b c l then v / (1 - drop_p d) else 0)
                                              (enumerate 0 r)) (enumerate 0 xb)) (enumerate 0 x)
      else x)"

text \<open>Pointwise activations.  \<^verbatim>\<open>nn.SiLU\<close> is \<open>x * sigmoid x\<close>.  \<^verbatim>\<open>F.gelu\<close> needs the
  Gaussian error function and is a parameter \<open>gelu\<close> of the forward functions.\<close>

definition silu :: "real \<Rightarrow> real" where
  "silu v = v / (1 + exp (- v))"

definition pointwise :: "(real \<Rightarrow> real) \<Rightarrow> tensor \<Rightarrow> tensor" where
  "pointwise f t = map (map (map f)) t"

definition checkpoint :: "('a \<Rightarrow> 'b) \<Rightarrow> 'a \<Rightarrow> 'b" where
  \<comment> \<open>Modelled from the spec: \<^verbatim>\<open>utils.util.checkpoint\<close> is not among the sources; the
      spec delegates gradient checkpointing to the framework, where it recomputes
      activations in the backward pass and returns the value of the call itself.\<close>
  "checkpoint f x = f x"

section \<open>SubBlock\<close>

text \<open>
  \<^verbatim>\<open>AttentionBlock\<close> and \<^verbatim>\<open>build_local_attention_mask\<close> live in
  \<^verbatim>\<open>models/arch_util.py\<close>, which is not among the sources.  An attention block is
  carried as its forward function, from the mask and the input to a result or an error;
  the mask is a Boolean matrix.  Moving the mask to the input's device on the first call
  (lines 33 to 35) changes no value.
\<close>

type_synonym mask = "bool list list"

record SubBlock =
  enable_attention_masking :: bool
  sb_dropout :: Dropout
  blk_emb_proj :: Conv1d
  attn :: "mask option \<Rightarrow> tensor \<Rightarrow> error + tensor"
  attnorm :: GroupNorm
  ff :: Conv1d
  ffnorm :: GroupNorm
  sb_mask :: "mask option"

text \<open>Lines 36 to 38: project, concatenate in front of \<open>x\<close>, attend, drop out, strip.\<close>

definition SubBlock_attention :: "SubBlock \<Rightarrow> keep \<Rightarrow> tensor \<Rightarrow> tensor \<Rightarrow> error + tensor" where
  "SubBlock_attention sb k x blk_emb =
     bindE (Conv1d_forward (blk_emb_proj sb) blk_emb) (\<lambda>blk_enc.
     bindE (cat_sequence blk_enc x) (\<lambda>inp.
     bindE (attn sb (sb_mask sb) inp) (\<lambda>a.
     Inr (map (map (drop (size2 blk_emb))) (Dropout_forward (sb_dropout sb) k a)))))"

definition SubBlock_forward ::
  "(real \<Rightarrow> real) \<Rightarrow> SubBlock \<Rightarrow> keep \<Rightarrow> keep \<Rightarrow> tensor \<Rightarrow> tensor \<Rightarrow> error + tensor" where
  "SubBlock_forward gelu sb k1 k2 x blk_emb =
     bindE (SubBlock_attention sb k1 x blk_emb) (\<lambda>ah.
     bindE (GroupNorm_forward (attnorm sb) ah) (\<lambda>ahn.
     bindE (cat_channels (pointwise gelu ahn) x) (\<lambda>h.
     bindE (checkpoint (Conv1d_forward (ff sb)) h) (\<lambda>hf.
     bindE (GroupNorm_forward (ffnorm sb) (Dropout_forward (sb_dropout sb) k2 hf)) (\<lambda>hfn.
     cat_channels h (pointwise gelu hfn))))))"

section \<open>ConcatAttentionBlock\<close>

record ConcatAttentionBlock =
  prenorm :: GroupNorm
  block1 :: SubBlock
  block2 :: SubBlock
  cab_out :: Conv1d

text \<open>\<^verbatim>\<open>h[:, x.shape[1]:]\<close> drops the first channels; \<^verbatim>\<open>h + x\<close> broadcasts.\<close>

definition ConcatAttentionBlock_forward ::
  "(real \<Rightarrow> real) \<Rightarrow> ConcatAttentionBlock \<Rightarrow> (nat \<Rightarrow> keep) \<Rightarrow> tensor \<Rightarrow> tensor \<Rightarrow> error + tensor" where
  "ConcatAttentionBlock_forward gelu blk ks x blk_emb =
     bindE (GroupNorm_forward (prenorm blk) x) (\<lambda>h0.
     bindE (SubBlock_forward gelu (block1 blk) (ks 0) (ks 1) h0 blk_emb) (\<lambda>h1.
     bindE (SubBlock_forward gelu (block2 blk) (ks 2) (ks 3) h1 blk_emb) (\<lambda>h2.
     bindE (Conv1d_forward (cab_out blk) (map (drop (size1 x)) h2)) (\<lambda>h.
     tensor_add h x))))"

section \<open>TransformerDiffusion\<close>

text \<open>
  \<^verbatim>\<open>normalization\<close>, \<^verbatim>\<open>zero_module\<close>, \<^verbatim>\<open>conv_nd\<close>, \<^verbatim>\<open>linear\<close> and
  \<^verbatim>\<open>timestep_embedding\<close> come from \<^verbatim>\<open>models/diffusion/nn.py\<close>, which is not among
  the sources.  The normalisation layer of the output head is carried as its forward
  function; \<^verbatim>\<open>timestep_embedding\<close> and \<^verbatim>\<open>F.gelu\<close> are the two fields of
  \<open>framework\<close>.  The module's \<^verbatim>\<open>training\<close> flag is \<open>td_training\<close>; every
  \<^verbatim>\<open>nn.Dropout\<close> carries its own, as in the framework.
\<close>

record framework =
  gelu :: "real \<Rightarrow> real"
  timestep_embedding :: "int list \<Rightarrow> nat \<Rightarrow> real list list"

record TransformerDiffusion =
  td_in_channels :: nat
  td_model_channels :: nat
  td_time_embed_dim :: nat
  td_out_channels :: nat
  td_dropout :: real
  unconditioned_percentage :: real
  enable_fp16 :: bool
  new_code_expansion :: bool
  use_corner_alignment :: bool
  inp_block :: Conv1d
  time_embed_0 :: Linear
  time_embed_2 :: Linear
  input_converter :: Conv1d
  unconditioned_embedding :: tensor
  intg :: Conv1d
  layers :: "ConcatAttentionBlock list"
  out_norm :: "tensor \<Rightarrow> error + tensor"
  out_conv :: Conv1d
  td_training :: bool
  td_trainable :: "string list option"

text \<open>The random numbers one forward call draws: \<open>cond_draw b\<close> is the value of
  \<^verbatim>\<open>torch.rand((B, 1, 1))\<close> at batch element \<open>b\<close>, and \<open>keeps i s\<close> is the dropout mask
  of layer \<open>i\<close> at its dropout call \<open>s\<close> (two calls in each of the two sub-blocks).\<close>

record draws =
  cond_draw :: "nat \<Rightarrow> real"
  keeps :: "nat \<Rightarrow> nat \<Rightarrow> keep"

text \<open>Lines 157 to 161: the conditioning dropout.\<close>

definition unconditioned_batches :: "TransformerDiffusion \<Rightarrow> draws \<Rightarrow> tensor \<Rightarrow> bool list list list" where
  "unconditioned_batches m d code_emb =
     map (\<lambda>b. [[cond_draw d b < unconditioned_percentage m]]) [0..<size0 code_emb]"

definition mask_conditioning :: "TransformerDiffusion \<Rightarrow> draws \<Rightarrow> tensor \<Rightarrow> tensor \<Rightarrow> error + tensor" where
  "mask_conditioning m d x code_emb =
     (if td_training m \<and> unconditioned_percentage m > 0
      then torch_where (unconditioned_batches m d code_emb)
             (repeat (unconditioned_embedding m) (size0 x) 1 1) code_emb
      else Inr code_emb)"

text \<open>Lines 151 to 163.  Without a prior the convolution is called on \<^verbatim>\<open>None\<close> and
  raises a \<^verbatim>\<open>TypeError\<close>.\<close>

definition code_embedding ::
  "TransformerDiffusion \<Rightarrow> draws \<Rightarrow> tensor \<Rightarrow> tensor option \<Rightarrow> bool \<Rightarrow> error + tensor" where
  "code_embedding m d x prior conditioning_free =
     (if conditioning_free
      then Inr (repeat (unconditioned_embedding m) (size0 x) 1 (size2 x))
      else (case prior of
              None \<Rightarrow> Inl TypeError
            | Some p \<Rightarrow>
                bindE (Conv1d_forward (input_converter m) p) (\<lambda>code_emb.
                bindE (mask_conditioning m d x code_emb) (\<lambda>code_emb.
                interpolate_nearest code_emb (size2 x)))))"

definition time_embed :: "framework \<Rightarrow> TransformerDiffusion \<Rightarrow> int list \<Rightarrow> error + real list list" where
  "time_embed fw m timesteps =
     bindE (Linear_forward (time_embed_0 m) (timestep_embedding fw timesteps (td_time_embed_dim m))) (\<lambda>h.
     Linear_forward (time_embed_2 m) (map (map silu) h))"

definition unsqueeze_last :: "real list list \<Rightarrow> tensor" where
  "unsqueeze_last t = map (map (\<lambda>v. [v])) t"

text \<open>The loop of lines 170 and 171, with the index of the layer for its dropout masks.\<close>

fun run_layers ::
  "(real \<Rightarrow> real) \<Rightarrow> (nat \<Rightarrow> nat \<Rightarrow> keep) \<Rightarrow> nat \<Rightarrow> ConcatAttentionBlock list \<Rightarrow> tensor \<Rightarrow> tensor
     \<Rightarrow> error + tensor" where
  "run_layers g ks i [] x blk_emb = Inr x"
| "run_layers g ks i (layer # rest) x blk_emb =
     bindE (checkpoint (ConcatAttentionBlock_forward g layer (ks i) x) blk_emb) (\<lambda>x'.
     run_layers g ks (Suc i) rest x' blk_emb)"

definition out_head :: "TransformerDiffusion \<Rightarrow> tensor \<Rightarrow> error + tensor" where
  "out_head m x = bindE (out_norm m x) (\<lambda>h. Conv1d_forward (out_conv m) (pointwise silu h))"

text \<open>Lines 177 to 180: the sum of the means of the listed parameters, from 0.\<close>

definition tensor_mean :: "tensor \<Rightarrow> real" where
  "tensor_mean t = mean (concat (concat t))"

definition extraneous_addition :: "tensor list \<Rightarrow> real" where
  "extraneous_addition unused_params = foldl (\<lambda>acc p. acc + tensor_mean p) 0 unused_params"

definition trunk ::
  "framework \<Rightarrow> TransformerDiffusion \<Rightarrow> draws \<Rightarrow> tensor \<Rightarrow> int list \<Rightarrow> tensor \<Rightarrow> error + tensor" where
  "trunk fw m d x timesteps code_emb =
     bindE (time_embed fw m timesteps) (\<lambda>te.
     bindE (Conv1d_forward (inp_block m) x) (\<lambda>x1.
     bindE (cat_channels x1 code_emb) (\<lambda>xc.
     bindE (Conv1d_forward (intg m) xc) (\<lambda>x2.
     run_layers (gelu fw) (keeps d) 0 (layers m) x2 (unsqueeze_last te)))))"

definition TransformerDiffusion_forward ::
  "framework \<Rightarrow> TransformerDiffusion \<Rightarrow> draws \<Rightarrow> tensor \<Rightarrow> int list \<Rightarrow> tensor option \<Rightarrow> bool
     \<Rightarrow> error + tensor" where
  "TransformerDiffusion_forward fw m d x timesteps prior conditioning_free =
     bindE (code_embedding m d x prior conditioning_free) (\<lambda>code_emb.
     bindE (trunk fw m d x timesteps code_emb) (\<lambda>x'.
     bindE (out_head m x') (\<lambda>out.
     Inr (add_scalar out (extraneous_addition [unconditioned_embedding m] * 0)))))"

subsection \<open>Construction\<close>

text \<open>
  What construction takes from outside this file: the values the framework's default
  initialisers draw (\<open>rnd site\<close> gives the values of the parameter created at
  \<open>site\<close>), and the constructors of the layers whose code is not among the sources.
  Channel counts are natural numbers.
\<close>

record init_env =
  rnd :: "nat list \<Rightarrow> nat \<Rightarrow> nat \<Rightarrow> nat \<Rightarrow> real"
  new_AttentionBlock :: "nat list \<Rightarrow> nat \<Rightarrow> nat \<Rightarrow> nat \<Rightarrow> error + (mask option \<Rightarrow> tensor \<Rightarrow> error + tensor)"
  normalization :: "nat \<Rightarrow> error + (tensor \<Rightarrow> error + tensor)"
  build_local_attention_mask :: "nat \<Rightarrow> nat \<Rightarrow> nat \<Rightarrow> mask"

fun mapE :: "('a \<Rightarrow> error + 'b) \<Rightarrow> 'a list \<Rightarrow> error + 'b list" where
  "mapE f [] = Inr []"
| "mapE f (x # xs) = bindE (f x) (\<lambda>y. bindE (mapE f xs) (\<lambda>ys. Inr (y # ys)))"

definition Conv1d_init :: "(nat \<Rightarrow> nat \<Rightarrow> nat \<Rightarrow> real) \<Rightarrow> nat \<Rightarrow> nat \<Rightarrow> nat \<Rightarrow> nat \<Rightarrow> bool \<Rightarrow> Conv1d" where
  "Conv1d_init r cin cout k pad has_bias =
     \<lparr>conv_in_channels = cin, conv_out_channels = cout, conv_kernel_size = k, conv_padding = pad,
      conv_weight = map (\<lambda>oc. map (\<lambda>c. map (\<lambda>j. r oc c j) [0..<k]) [0..<cin]) [0..<cout],
      conv_bias = (if has_bias then Some (map (\<lambda>oc. r oc cin 0) [0..<cout]) else None)\<rparr>"

definition Linear_init :: "(nat \<Rightarrow> nat \<Rightarrow> nat \<Rightarrow> real) \<Rightarrow> nat \<Rightarrow> nat \<Rightarrow> Linear" where
  "Linear_init r n_in n_out =
     \<lparr>lin_in_features = n_in, lin_out_features = n_out,
      lin_weight = map (\<lambda>oc. map (\<lambda>i. r oc i 0) [0..<n_in]) [0..<n_out],
      lin_bias = map (\<lambda>oc. r oc n_in 0) [0..<n_out]\<rparr>"

text \<open>\<^verbatim>\<open>nn.GroupNorm\<close> refuses a channel count its groups do not divide; its weight
  starts at one and its bias at zero.  \<^verbatim>\<open>nn.Dropout\<close> refuses a probability outside
  \<open>[0, 1]\<close>.  A new module is in training mode.\<close>

definition GroupNorm_init :: "nat \<Rightarrow> nat \<Rightarrow> error + GroupNorm" where
  "GroupNorm_init g c =
     (if c mod g \<noteq> 0 then Inl ValueError
      else Inr \<lparr>num_groups = g, num_channels = c, gn_weight = replicate c 1, gn_bias = replicate c 0,
                gn_eps = 1 / 100000\<rparr>)"

definition Dropout_init :: "real \<Rightarrow> error + Dropout" where
  "Dropout_init p = (if p < 0 \<or> p > 1 then Inl ValueError else Inr \<lparr>drop_p = p, drop_training = True\<rparr>)"

definition zero_weight :: "Conv1d \<Rightarrow> Conv1d" where
  \<comment> \<open>\<^verbatim>\<open>cv.weight.data.zero_()\<close>\<close>
  "zero_weight cv = cv\<lparr>conv_weight := map (map (map (\<lambda>_. 0))) (conv_weight cv)\<rparr>"

definition zero_module :: "Conv1d \<Rightarrow> Conv1d" where
  \<comment> \<open>Modelled from the spec: \<^verbatim>\<open>zero_module\<close> is not among the sources; by its name and
      its use on the last convolution of the output head it returns its argument with
      every parameter (weight and bias) set to zero.\<close>
  "zero_module cv =
     cv\<lparr>conv_weight := map (map (map (\<lambda>_. 0))) (conv_weight cv),
        conv_bias := map_option (map (\<lambda>_. 0)) (conv_bias cv)\<rparr>"

definition SubBlock_init ::
  "init_env \<Rightarrow> nat list \<Rightarrow> nat \<Rightarrow> nat \<Rightarrow> nat \<Rightarrow> nat \<Rightarrow> real \<Rightarrow> bool \<Rightarrow> error + SubBlock" where
  "SubBlock_init env site inp_dim contraction_dim blk_dim heads dropout masking =
     bindE (Dropout_init dropout) (\<lambda>dr.
     bindE (new_AttentionBlock env (site @ [1]) inp_dim contraction_dim heads) (\<lambda>ab.
     bindE (GroupNorm_init 8 contraction_dim) (\<lambda>an.
     bindE (GroupNorm_init 8 contraction_dim) (\<lambda>fn.
     Inr \<lparr>enable_attention_masking = masking,
          sb_dropout = dr,
          blk_emb_proj = Conv1d_init (rnd env (site @ [0])) blk_dim inp_dim 1 0 True,
          attn = ab,
          attnorm = an,
          ff = Conv1d_init (rnd env (site @ [2])) (inp_dim + contraction_dim) contraction_dim 3 1 True,
          ffnorm = fn,
          sb_mask = (if masking then Some (build_local_attention_mask env 4000 48 1) else None)\<rparr>))))"

definition ConcatAttentionBlock_init ::
  "init_env \<Rightarrow> nat list \<Rightarrow> nat \<Rightarrow> nat \<Rightarrow> nat \<Rightarrow> real \<Rightarrow> bool \<Rightarrow> error + ConcatAttentionBlock" where
  "ConcatAttentionBlock_init env site trunk_dim contraction_dim heads dropout masking =
     bindE (GroupNorm_init 8 trunk_dim) (\<lambda>pn.
     bindE (SubBlock_init env (site @ [1]) trunk_dim contraction_dim trunk_dim heads dropout masking) (\<lambda>b1.
     bindE (SubBlock_init env (site @ [2]) (trunk_dim + contraction_dim * 2) contraction_dim trunk_dim heads
              dropout masking) (\<lambda>b2.
     Inr \<lparr>prenorm = pn, block1 = b1, block2 = b2,
          cab_out = zero_weight (Conv1d_init (rnd env (site @ [3])) (contraction_dim * 4) trunk_dim 1 0 False)\<rparr>)))"

record TransformerDiffusion_args =
  arg_time_embed_dim :: nat
  arg_model_channels :: nat
  arg_contraction_dim :: nat
  arg_num_layers :: nat
  arg_in_channels :: nat
  arg_input_vec_dim :: nat
  arg_out_channels :: nat
  arg_num_heads :: nat
  arg_dropout :: real
  arg_use_corner_alignment :: bool
  arg_use_fp16 :: bool
  arg_new_code_expansion :: bool
  arg_unconditioned_percentage :: real
  arg_freeze_except_code_converters :: bool

text \<open>The attributes \<^verbatim>\<open>__init__\<close> assigns on the module (lines 91 to 117), the methods
  of the class, and \<^verbatim>\<open>training\<close>.  Reading any other name of a module raises an
  \<^verbatim>\<open>AttributeError\<close>.\<close>

definition TransformerDiffusion_attributes :: "string list" where
  "TransformerDiffusion_attributes =
     [''in_channels'', ''model_channels'', ''time_embed_dim'', ''out_channels'', ''dropout'',
      ''unconditioned_percentage'', ''enable_fp16'', ''new_code_expansion'', ''use_corner_alignment'',
      ''inp_block'', ''time_embed'', ''input_converter'', ''unconditioned_embedding'', ''intg'',
      ''layers'', ''out'', ''training'', ''forward'', ''get_grad_norm_parameter_groups'']"

definition module_getattr :: "string list \<Rightarrow> string \<Rightarrow> error + string" where
  "module_getattr attrs name = (if name \<in> set attrs then Inr name else Inl AttributeError)"

text \<open>Lines 119 to 126.  After every parameter is frozen, the loop header reads
  \<^verbatim>\<open>self.code_converter\<close> first; \<open>td_trainable\<close> names the sub-modules whose
  parameters are trainable again (\<open>None\<close>: nothing was frozen).\<close>

definition freeze_except_code_converters :: "TransformerDiffusion \<Rightarrow> error + TransformerDiffusion" where
  "freeze_except_code_converters m =
     bindE (module_getattr TransformerDiffusion_attributes ''code_converter'') (\<lambda>_.
     bindE (module_getattr TransformerDiffusion_attributes ''input_converter'') (\<lambda>ic.
     Inr (m\<lparr>td_trainable := Some [ic]\<rparr>)))"

definition TransformerDiffusion_init :: "init_env \<Rightarrow> TransformerDiffusion_args \<Rightarrow> error + TransformerDiffusion" where
  "TransformerDiffusion_init env a =
     bindE (mapE (\<lambda>i. ConcatAttentionBlock_init env [5, i] (arg_model_channels a) (arg_contraction_dim a)
                        (arg_num_heads a) (arg_dropout a) True) [0..<arg_num_layers a]) (\<lambda>ls.
     bindE (normalization env (arg_model_channels a)) (\<lambda>nm.
     let m = \<lparr>td_in_channels = arg_in_channels a,
              td_model_channels = arg_model_channels a,
              td_time_embed_dim = arg_time_embed_dim a,
              td_out_channels = arg_out_channels a,
              td_dropout = arg_dropout a,
              unconditioned_percentage = arg_unconditioned_percentage a,
              enable_fp16 = arg_use_fp16 a,
              new_code_expansion = arg_new_code_expansion a,
              use_corner_alignment = arg_use_corner_alignment a,
              inp_block = Conv1d_init (rnd env [0]) (arg_in_channels a) (arg_model_channels a) 3 1 True,
              time_embed_0 = Linear_init (rnd env [1]) (arg_time_embed_dim a) (arg_time_embed_dim a),
              time_embed_2 = Linear_init (rnd env [2]) (arg_time_embed_dim a) (arg_model_channels a),
              input_converter = Conv1d_init (rnd env [3]) (arg_input_vec_dim a) (arg_model_channels a) 1 0 True,
              unconditioned_embedding = [map (\<lambda>c. [rnd env [4] 0 c 0]) [0..<arg_model_channels a]],
              intg = Conv1d_init (rnd env [6]) (arg_model_channels a * 2) (arg_model_channels a) 1 0 True,
              layers = ls,
              out_norm = nm,
              out_conv = zero_module (Conv1d_init (rnd env [7]) (arg_model_channels a) (arg_out_channels a) 3 1 True),
              td_training = True,
              td_trainable = None\<rparr>
     in if arg_freeze_except_code_converters a then freeze_except_code_converters m else Inr m))"

subsection \<open>Evaluation mode\<close>

text \<open>\<^verbatim>\<open>model.eval()\<close> clears the \<^verbatim>\<open>training\<close> flag of the module and of every
  sub-module; of those only the dropout layers read it.  \<open>eval_mode\<close> holds of a model in
  that state.\<close>

definition SubBlock_eval :: "SubBlock \<Rightarrow> SubBlock" where
  "SubBlock_eval sb = sb\<lparr>sb_dropout := (sb_dropout sb)\<lparr>drop_training := False\<rparr>\<rparr>"

definition ConcatAttentionBlock_eval :: "ConcatAttentionBlock \<Rightarrow> ConcatAttentionBlock" where
  "ConcatAttentionBlock_eval blk =
     blk\<lparr>block1 := SubBlock_eval (block1 blk), block2 := SubBlock_eval (block2 blk)\<rparr>"

definition TransformerDiffusion_eval :: "TransformerDiffusion \<Rightarrow> TransformerDiffusion" where
  "TransformerDiffusion_eval m = m\<lparr>td_training := False, layers := map ConcatAttentionBlock_eval (layers m)\<rparr>"

definition eval_mode :: "TransformerDiffusion \<Rightarrow> bool" where
  "eval_mode m \<longleftrightarrow>
     \<not> td_training m \<and>
     list_all (\<lambda>blk. \<not> drop_training (sb_dropout (block1 blk)) \<and> \<not> drop_training (sb_dropout (block2 blk)))
       (layers m)"

section \<open>TransformerDiffusionWithCheaterLatent\<close>

text \<open>\<^verbatim>\<open>ResEncoder16x\<close> lives in \<^verbatim>\<open>models/audio/music/encoders.py\<close>, which is not
  among the sources: the encoder is carried as its forward function and the values of
  its parameters (each flattened).\<close>

record TransformerDiffusionWithCheaterLatent =
  internal_step :: int
  freeze_encoder_until :: "int option"
  diff :: TransformerDiffusion
  encoder :: "tensor \<Rightarrow> error + tensor"
  encoder_parameters :: "real list list"

definition encoder_grad_enabled :: "TransformerDiffusionWithCheaterLatent \<Rightarrow> bool" where
  "encoder_grad_enabled c =
     (case freeze_encoder_until c of None \<Rightarrow> False | Some u \<Rightarrow> internal_step c > u)"

definition unused_parameters :: "TransformerDiffusionWithCheaterLatent \<Rightarrow> real list list" where
  "unused_parameters c = (if \<not> encoder_grad_enabled c then encoder_parameters c else [])"

text \<open>Lines 200 to 203: the value handed to the inner model as \<^verbatim>\<open>prior\<close>.\<close>

definition cheater_prior :: "TransformerDiffusionWithCheaterLatent \<Rightarrow> tensor \<Rightarrow> error + tensor" where
  "cheater_prior c truth_mel =
     bindE (encoder c truth_mel) (\<lambda>proj.
     Inr (foldl (\<lambda>proj p. add_scalar proj (mean p * 0)) proj (unused_parameters c)))"

definition TransformerDiffusionWithCheaterLatent_forward ::
  "framework \<Rightarrow> TransformerDiffusionWithCheaterLatent \<Rightarrow> draws \<Rightarrow> tensor \<Rightarrow> int list \<Rightarrow> tensor \<Rightarrow> bool
     \<Rightarrow> error + tensor" where
  "TransformerDiffusionWithCheaterLatent_forward fw c d x timesteps truth_mel conditioning_free =
     bindE (cheater_prior c truth_mel) (\<lambda>proj.
     TransformerDiffusion_forward fw (diff c) d x timesteps (Some proj) conditioning_free)"

subsection \<open>Gradient scaling before the optimiser step\<close>

text \<open>
  A parameter is identified by its path in the module tree (as in
  \<^verbatim>\<open>named_parameters\<close>); every module of this model owns its parameters, so distinct
  paths are distinct parameter objects.  The gradient store maps a parameter to its
  \<^verbatim>\<open>.grad\<close>: \<open>None\<close>, or the gradient's elements.
\<close>

datatype seg = Name string | Index nat

type_synonym pname = "seg list"

type_synonym grads = "pname \<Rightarrow> real list option"

definition Conv1d_parameters :: "pname \<Rightarrow> Conv1d \<Rightarrow> pname list" where
  "Conv1d_parameters pre cv =
     (pre @ [Name ''weight'']) # (case conv_bias cv of None \<Rightarrow> [] | Some _ \<Rightarrow> [pre @ [Name ''bias'']])"

definition GroupNorm_parameters :: "pname \<Rightarrow> GroupNorm \<Rightarrow> pname list" where
  "GroupNorm_parameters pre gn = [pre @ [Name ''weight''], pre @ [Name ''bias'']]"

definition layer_out_parameters :: "nat \<Rightarrow> ConcatAttentionBlock list \<Rightarrow> pname list" where
  \<comment> \<open>\<^verbatim>\<open>chain.from_iterable([lyr.out.parameters() for lyr in self.diff.layers])\<close>, the
      first layer having index \<open>n\<close>\<close>
  "layer_out_parameters n ls =
     concat (map (\<lambda>(i, lyr). Conv1d_parameters [Name ''diff'', Name ''layers'', Index i, Name ''out''] (cab_out lyr))
               (enumerate n ls))"

definition layer_prenorm_parameters :: "nat \<Rightarrow> ConcatAttentionBlock list \<Rightarrow> pname list" where
  "layer_prenorm_parameters n ls =
     concat (map (\<lambda>(i, lyr). GroupNorm_parameters [Name ''diff'', Name ''layers'', Index i, Name ''prenorm''] (prenorm lyr))
               (enumerate n ls))"

definition scaled_grad_parameters :: "TransformerDiffusionWithCheaterLatent \<Rightarrow> pname list" where
  "scaled_grad_parameters c =
     layer_out_parameters 0 (layers (diff c)) @ layer_prenorm_parameters 0 (layers (diff c))"

definition scale_grad :: "grads \<Rightarrow> pname \<Rightarrow> grads" where
  \<comment> \<open>\<^verbatim>\<open>if hasattr(p, 'grad') and p.grad is not None: p.grad *= .2\<close>\<close>
  "scale_grad G p = (case G p of None \<Rightarrow> G | Some g \<Rightarrow> G(p := Some (map (\<lambda>v. v * 0.2) g)))"

definition before_step :: "TransformerDiffusionWithCheaterLatent \<Rightarrow> int \<Rightarrow> grads \<Rightarrow> grads" where
  "before_step c step G = foldl scale_grad G (scaled_grad_parameters c)"

section \<open>Concrete instances\<close>

text \<open>
  A small environment and small arguments, used to instantiate the theorems below: every
  initial parameter value is 1, an attention block returns zeros of the shape it is built
  for, the output normalisation is the identity and the time-step embedding is zero.
\<close>

definition ex_env :: init_env where
  "ex_env =
     \<lparr>rnd = (\<lambda>site a b c. 1),
      new_AttentionBlock = (\<lambda>site ch outc heads.
         Inr (\<lambda>mk t. Inr (map (\<lambda>b. replicate outc (replicate (size2 t) 0)) t))),
      normalization = (\<lambda>c. Inr (\<lambda>t. Inr t)),
      build_local_attention_mask = (\<lambda>n l f. [])\<rparr>"

definition ex_framework :: framework where
  "ex_framework = \<lparr>gelu = (\<lambda>v. v), timestep_embedding = (\<lambda>ts dim. map (\<lambda>t. replicate dim 0) ts)\<rparr>"

definition ex_args :: "nat \<Rightarrow> nat \<Rightarrow> bool \<Rightarrow> TransformerDiffusion_args" where
  "ex_args c n fr =
     \<lparr>arg_time_embed_dim = 1, arg_model_channels = c, arg_contraction_dim = 8, arg_num_layers = n,
      arg_in_channels = 1, arg_input_vec_dim = 1, arg_out_channels = 2, arg_num_heads = 1,
      arg_dropout = 0, arg_use_corner_alignment = False, arg_use_fp16 = False,
      arg_new_code_expansion = False, arg_unconditioned_percentage = 1 / 10,
      arg_freeze_except_code_converters = fr\<rparr>"

definition ex_draws :: draws where
  "ex_draws = \<lparr>cond_draw = (\<lambda>b. if b = 0 then 0 else 1), keeps = (\<lambda>i s b c l. True)\<rparr>"

definition ex_draws' :: draws where
  "ex_draws' = \<lparr>cond_draw = (\<lambda>b. 0), keeps = (\<lambda>i s b c l. False)\<rparr>"

definition ex_x :: tensor where
  "ex_x = [[[3, 4, 5]], [[6, 7, 8]]]"

definition ex_prior :: tensor where
  "ex_prior = [[[1, 2]], [[3, 4]]]"

definition ex_model :: TransformerDiffusion where
  "ex_model = projr (TransformerDiffusion_init ex_env (ex_args 2 0 False))"

definition ex_model_1 :: TransformerDiffusion where
  "ex_model_1 = projr (TransformerDiffusion_init ex_env (ex_args 8 1 False))"

definition ex_sb :: SubBlock where
  "ex_sb = projr (SubBlock_init ex_env [5, 0, 1] 8 8 8 1 0 True)"

definition ex_blk :: ConcatAttentionBlock where
  "ex_blk = projr (ConcatAttentionBlock_init ex_env [5, 0] 8 8 1 0 True)"

definition ex_h :: tensor where
  "ex_h = [replicate 8 [1, 2]]"

definition ex_blk_emb :: tensor where
  "ex_blk_emb = [replicate 8 [0]]"

section \<open>Basic facts\<close>

lemma bindE_Inl [simp]: "bindE (Inl e) f = Inl e"
  by (simp add: bindE_def)

lemma bindE_Inr [simp]: "bindE (Inr v) f = f v"
  by (simp add: bindE_def)

lemma bindE_eq_Inr: "bindE r f = Inr y \<longleftrightarrow> (\<exists>v. r = Inr v \<and> f v = Inr y)"
  by (cases r) simp_all

lemma has_shape_nth:
  "has_shape B C L t \<longleftrightarrow>
     length t = B \<and> (\<forall>b<B. length (t ! b) = C \<and> (\<forall>c<C. length (t ! b ! c) = L))"
  unfolding has_shape_def list_all_length by auto

lemma has_shape_sizes:
  assumes "has_shape B C L t" "0 < B" "0 < C"
  shows "size0 t = B" "size1 t = C" "size2 t = L"
proof -
  from assms obtain b t' where t: "t = b # t'" by (cases t) (auto simp: has_shape_def)
  with assms obtain r b' where b: "b = r # b'" by (cases b) (auto simp: has_shape_def)
  show "size0 t = B" using assms by (simp add: size0_def has_shape_def)
  show "size1 t = C" using assms t by (simp add: size1_def has_shape_def)
  show "size2 t = L" using assms t b by (simp add: size2_def has_shape_def)
qed


lemma tensor_eqI:
  assumes "has_shape B C L s" "has_shape B C L t"
    and "\<And>b c l. b < B \<Longrightarrow> c < C \<Longrightarrow> l < L \<Longrightarrow> s ! b ! c ! l = t ! b ! c ! l"
  shows "s = t"
  using assms unfolding has_shape_nth
  by (auto intro!: nth_equalityI)





lemma bdim_simps [simp]: "bdim n n = Some n" "bdim (Suc 0) n = Some n" "bdim n (Suc 0) = Some n"
  by (auto simp: bdim_def)

lemma tile_one [simp]: "tile (Suc 0) xs = xs"
  by (simp add: tile_def)

lemma tile_singleton [simp]: "tile n [x] = replicate n x"
  by (induction n) (simp_all add: tile_def)

lemma map_tile_one [simp]: "map (tile (Suc 0)) xs = xs"
  by (induction xs) simp_all



subsection \<open>Shapes through the layers\<close>

lemma has_shape_rows:
  "has_shape B C L t \<Longrightarrow> 0 < C \<Longrightarrow> xb \<in> set t \<Longrightarrow> (case xb of [] \<Rightarrow> 0 | r # _ \<Rightarrow> length r) = L"
  by (cases xb) (auto simp: has_shape_def list_all_iff)

lemma has_shape_conv_batch:
  assumes "has_shape B C L x" "0 < C"
  shows "has_shape B (conv_out_channels cv) (L + 2 * conv_padding cv + 1 - conv_kernel_size cv)
           (map (conv_batch cv) x)"
proof -
  have "length (conv_batch cv xb) = conv_out_channels cv \<and>
        list_all (\<lambda>r. length r = L + 2 * conv_padding cv + 1 - conv_kernel_size cv) (conv_batch cv xb)"
    if "xb \<in> set x" for xb
    using has_shape_rows [OF assms that] by (simp add: conv_batch_def list_all_iff)
  with assms(1) show ?thesis
    by (simp add: has_shape_def list_all_iff)
qed

lemma Conv1d_forward_shape:
  assumes "has_shape B C L x" "0 < B" "0 < C" "conv_in_channels cv = C"
    and "conv_kernel_size cv \<le> L + 2 * conv_padding cv"
  shows "Conv1d_forward cv x = Inr (map (conv_batch cv) x)"
    and "has_shape B (conv_out_channels cv) (L + 2 * conv_padding cv + 1 - conv_kernel_size cv)
           (map (conv_batch cv) x)"
  using assms has_shape_sizes [OF assms(1-3)] has_shape_conv_batch [OF assms(1,3)]
  by (simp_all add: Conv1d_forward_def)



lemma has_shape_pointwise:
  "has_shape B C L a \<Longrightarrow> has_shape B C L (pointwise f a)"
  by (simp add: has_shape_nth pointwise_def)


lemma cat_channels_shape:
  assumes "has_shape B C1 L a" "has_shape B C2 L b" "0 < B" "0 < C1" "0 < C2"
  shows "cat_channels a b = Inr (map2 (@) a b)"
    and "has_shape B (C1 + C2) L (map2 (@) a b)"
proof -
  show "cat_channels a b = Inr (map2 (@) a b)"
    using has_shape_sizes [OF assms(1,3,4)] has_shape_sizes [OF assms(2,3,5)]
    by (simp add: cat_channels_def)
  show "has_shape B (C1 + C2) L (map2 (@) a b)"
    using assms(1,2) by (auto simp: has_shape_nth nth_append)
qed

lemma GroupNorm_forward_shape:
  assumes "has_shape B C L x" "0 < B" "0 < C" "num_channels gn = C"
  shows "GroupNorm_forward gn x = Inr (map (group_norm_batch gn) x)"
    and "has_shape B C L (map (group_norm_batch gn) x)"
proof -
  show "GroupNorm_forward gn x = Inr (map (group_norm_batch gn) x)"
    using has_shape_sizes [OF assms(1-3)] assms(4) by (simp add: GroupNorm_forward_def)
  show "has_shape B C L (map (group_norm_batch gn) x)"
    using assms(1,4) by (simp add: has_shape_nth group_norm_batch_def Let_def)
qed

lemma SubBlock_init_Inr:
  assumes "SubBlock_init env site inp_dim contraction_dim blk_dim heads dropout masking = Inr sb"
  shows "blk_emb_proj sb = Conv1d_init (rnd env (site @ [0])) blk_dim inp_dim 1 0 True"
    and "new_AttentionBlock env (site @ [1]) inp_dim contraction_dim heads = Inr (attn sb)"
    and "GroupNorm_init 8 contraction_dim = Inr (attnorm sb)"
    and "ff sb = Conv1d_init (rnd env (site @ [2])) (inp_dim + contraction_dim) contraction_dim 3 1 True"
    and "GroupNorm_init 8 contraction_dim = Inr (ffnorm sb)"
    and "Dropout_init dropout = Inr (sb_dropout sb)"
  using assms unfolding SubBlock_init_def bindE_eq_Inr by auto

lemma ConcatAttentionBlock_init_Inr:
  assumes "ConcatAttentionBlock_init env site trunk_dim contraction_dim heads dropout masking = Inr blk"
  shows "GroupNorm_init 8 trunk_dim = Inr (prenorm blk)"
    and "SubBlock_init env (site @ [1]) trunk_dim contraction_dim trunk_dim heads dropout masking = Inr (block1 blk)"
    and "SubBlock_init env (site @ [2]) (trunk_dim + contraction_dim * 2) contraction_dim trunk_dim heads
           dropout masking = Inr (block2 blk)"
    and "cab_out blk = zero_weight (Conv1d_init (rnd env (site @ [3])) (contraction_dim * 4) trunk_dim 1 0 False)"
  using assms unfolding ConcatAttentionBlock_init_def bindE_eq_Inr by auto

lemma Conv1d_init_simps [simp]:
  "conv_in_channels (Conv1d_init r cin cout k pad hb) = cin"
  "conv_out_channels (Conv1d_init r cin cout k pad hb) = cout"
  "conv_kernel_size (Conv1d_init r cin cout k pad hb) = k"
  "conv_padding (Conv1d_init r cin cout k pad hb) = pad"
  by (simp_all add: Conv1d_init_def)

lemma GroupNorm_init_Inr:
  "GroupNorm_init g c = Inr gn \<Longrightarrow> num_channels gn = c \<and> num_groups gn = g \<and> c mod g = 0"
  by (auto simp: GroupNorm_init_def split: if_splits)

subsection \<open>The concrete instances\<close>

text \<open>Evaluation of the concrete instances.\<close>

lemmas eval_defs = TransformerDiffusion_forward_def TransformerDiffusion_init_def ex_env_def ex_args_def
  ex_framework_def ex_draws_def ex_draws'_def ex_x_def ex_prior_def ex_model_def ex_model_1_def
  ex_sb_def ex_blk_def ex_h_def ex_blk_emb_def
  mapE.simps ConcatAttentionBlock_init_def SubBlock_init_def TransformerDiffusion_eval_def
  ConcatAttentionBlock_eval_def SubBlock_eval_def eval_mode_def code_embedding_def trunk_def out_head_def time_embed_def
  Linear_forward_def Linear_init_def Conv1d_init_def Conv1d_forward_def conv_batch_def conv_at_def
  conv_bias_at_def pad_row_def size0_def size1_def size2_def mask_conditioning_def
  unconditioned_batches_def torch_where_def tensor_add_def shape_def bshape_def bdim_def expand_def
  tmap2_def repeat_def tile_def cat_channels_def cat_sequence_def interpolate_nearest_def
  zero_module_def zero_weight_def add_scalar_def extraneous_addition_def tensor_mean_def mean_def
  pointwise_def unsqueeze_last_def checkpoint_def GroupNorm_init_def Dropout_init_def
  freeze_except_code_converters_def module_getattr_def TransformerDiffusion_attributes_def
  has_shape_def Let_def upt_rec [of 0 "numeral n"] upt_rec [of "Suc m" "numeral n"] for m n

section \<open>Conditioning dropout\<close>



section \<open>Gradient scaling\<close>

lemma scale_grad_apply:
  "scale_grad G q p = (if p = q then map_option (map (\<lambda>v. v * 0.2)) (G p) else G p)"
  by (simp add: scale_grad_def split: option.splits)

lemma foldl_scale_grad:
  "distinct ps \<Longrightarrow>
   foldl scale_grad G ps p = (if p \<in> set ps then map_option (map (\<lambda>v. v * 0.2)) (G p) else G p)"
proof (induction ps arbitrary: G)
  case Nil
  then show ?case by simp
next
  case (Cons q ps)
  then show ?case by (auto simp: scale_grad_apply)
qed

lemma layer_out_parameters_index:
  "p \<in> set (layer_out_parameters n ls) \<Longrightarrow> \<exists>i\<ge>n. p ! 2 = Index i \<and> p ! 3 = Name ''out''"
proof (induction ls arbitrary: n)
  case Nil
  then show ?case by (simp add: layer_out_parameters_def)
next
  case (Cons l ls)
  from Cons.prems have "p \<in> set (Conv1d_parameters [Name ''diff'', Name ''layers'', Index n, Name ''out''] (cab_out l))
      \<or> p \<in> set (layer_out_parameters (Suc n) ls)"
    by (simp add: layer_out_parameters_def)
  then show ?case
  proof
    assume "p \<in> set (Conv1d_parameters [Name ''diff'', Name ''layers'', Index n, Name ''out''] (cab_out l))"
    then show ?thesis by (auto simp: Conv1d_parameters_def split: option.splits)
  next
    assume "p \<in> set (layer_out_parameters (Suc n) ls)"
    from Cons.IH [OF this] show ?thesis by (meson Suc_leD)
  qed
qed

lemma layer_prenorm_parameters_index:
  "p \<in> set (layer_prenorm_parameters n ls) \<Longrightarrow> \<exists>i\<ge>n. p ! 2 = Index i \<and> p ! 3 = Name ''prenorm''"
proof (induction ls arbitrary: n)
  case Nil
  then show ?case by (simp add: layer_prenorm_parameters_def)
next
  case (Cons l ls)
  from Cons.prems have "p \<in> set (GroupNorm_parameters [Name ''diff'', Name ''layers'', Index n, Name ''prenorm''] (prenorm l))
      \<or> p \<in> set (layer_prenorm_parameters (Suc n) ls)"
    by (simp add: layer_prenorm_parameters_def)
  then show ?case
  proof
    assume "p \<in> set (GroupNorm_parameters [Name ''diff'', Name ''layers'', Index n, Name ''prenorm''] (prenorm l))"
    then show ?thesis by (auto simp: GroupNorm_parameters_def)
  next
    assume "p \<in> set (layer_prenorm_parameters (Suc n) ls)"
    from Cons.IH [OF this] show ?thesis by (meson Suc_leD)
  qed
qed

lemma distinct_layer_out_parameters: "distinct (layer_out_parameters n ls)"
proof (induction ls arbitrary: n)
  case Nil
  then show ?case by (simp add: layer_out_parameters_def)
next
  case (Cons l ls)
  have step: "layer_out_parameters n (l # ls) =
      Conv1d_parameters [Name ''diff'', Name ''layers'', Index n, Name ''out''] (cab_out l) @
      layer_out_parameters (Suc n) ls"
    by (simp add: layer_out_parameters_def)
  have d: "distinct (Conv1d_parameters [Name ''diff'', Name ''layers'', Index n, Name ''out''] (cab_out l))"
    by (simp add: Conv1d_parameters_def split: option.splits)
  have "p \<notin> set (layer_out_parameters (Suc n) ls)"
    if "p \<in> set (Conv1d_parameters [Name ''diff'', Name ''layers'', Index n, Name ''out''] (cab_out l))" for p
  proof
    assume "p \<in> set (layer_out_parameters (Suc n) ls)"
    then obtain i where "i \<ge> Suc n" "p ! 2 = Index i" using layer_out_parameters_index by blast
    moreover have "p ! 2 = Index n" using that by (auto simp: Conv1d_parameters_def split: option.splits)
    ultimately show False by simp
  qed
  with d Cons.IH [of "Suc n"] show ?case unfolding step by auto
qed

lemma distinct_layer_prenorm_parameters: "distinct (layer_prenorm_parameters n ls)"
proof (induction ls arbitrary: n)
  case Nil
  then show ?case by (simp add: layer_prenorm_parameters_def)
next
  case (Cons l ls)
  have step: "layer_prenorm_parameters n (l # ls) =
      GroupNorm_parameters [Name ''diff'', Name ''layers'', Index n, Name ''prenorm''] (prenorm l) @
      layer_prenorm_parameters (Suc n) ls"
    by (simp add: layer_prenorm_parameters_def)
  have d: "distinct (GroupNorm_parameters [Name ''diff'', Name ''layers'', Index n, Name ''prenorm''] (prenorm l))"
    by (simp add: GroupNorm_parameters_def)
  have "p \<notin> set (layer_prenorm_parameters (Suc n) ls)"
    if "p \<in> set (GroupNorm_parameters [Name ''diff'', Name ''layers'', Index n, Name ''prenorm''] (prenorm l))" for p
  proof
    assume "p \<in> set (layer_prenorm_parameters (Suc n) ls)"
    then obtain i where "i \<ge> Suc n" "p ! 2 = Index i" using layer_prenorm_parameters_index by blast
    moreover have "p ! 2 = Index n" using that by (auto simp: GroupNorm_parameters_def)
    ultimately show False by simp
  qed
  with d Cons.IH [of "Suc n"] show ?case unfolding step by auto
qed

lemma distinct_scaled_grad_parameters: "distinct (scaled_grad_parameters c)"
proof -
  have "set (layer_out_parameters 0 (layers (diff c))) \<inter> set (layer_prenorm_parameters 0 (layers (diff c))) = {}"
  proof (rule ccontr)
    assume "set (layer_out_parameters 0 (layers (diff c))) \<inter> set (layer_prenorm_parameters 0 (layers (diff c))) \<noteq> {}"
    then obtain p where "p \<in> set (layer_out_parameters 0 (layers (diff c)))"
        "p \<in> set (layer_prenorm_parameters 0 (layers (diff c)))"
      by blast
    then have "p ! 3 = Name ''out''" "p ! 3 = Name ''prenorm''"
      using layer_out_parameters_index layer_prenorm_parameters_index by blast+
    then show False by simp
  qed
  then show ?thesis
    unfolding scaled_grad_parameters_def
    by (simp add: distinct_layer_out_parameters distinct_layer_prenorm_parameters)
qed

lemma scaled_grad_parameters_iff:
  "p \<in> set (scaled_grad_parameters c) \<longleftrightarrow>
     (\<exists>i. i < length (layers (diff c)) \<and>
        (p \<in> set (Conv1d_parameters [Name ''diff'', Name ''layers'', Index i, Name ''out''] (cab_out (layers (diff c) ! i)))
         \<or> p \<in> set (GroupNorm_parameters [Name ''diff'', Name ''layers'', Index i, Name ''prenorm'']
                      (prenorm (layers (diff c) ! i)))))"
proof -
  have *: "p \<in> set (concat (map (\<lambda>(i, lyr). f i lyr) (enumerate 0 ls))) \<longleftrightarrow>
        (\<exists>i. i < length ls \<and> p \<in> set (f i (ls ! i)))" for f :: "nat \<Rightarrow> ConcatAttentionBlock \<Rightarrow> pname list" and ls
  proof
    assume "p \<in> set (concat (map (\<lambda>(i, lyr). f i lyr) (enumerate 0 ls)))"
    then obtain i l where "(i, l) \<in> set (enumerate 0 ls)" "p \<in> set (f i l)" by auto
    then show "\<exists>i. i < length ls \<and> p \<in> set (f i (ls ! i))"
      by (auto simp: in_set_enumerate_eq)
  next
    assume "\<exists>i. i < length ls \<and> p \<in> set (f i (ls ! i))"
    then obtain i where i: "i < length ls" "p \<in> set (f i (ls ! i))" by blast
    then have "(i, ls ! i) \<in> set (enumerate 0 ls)" by (simp add: in_set_enumerate_eq)
    with i(2) show "p \<in> set (concat (map (\<lambda>(i, lyr). f i lyr) (enumerate 0 ls)))" by force
  qed
  show ?thesis
    unfolding scaled_grad_parameters_def layer_out_parameters_def layer_prenorm_parameters_def
      set_append Un_iff * by blast
qed

text \<open>
  Claim C4.  \<^verbatim>\<open>before_step\<close> multiplies by 0.2 the gradient (when there is one) of
  exactly the parameters of every layer's \<^verbatim>\<open>out\<close> convolution and \<^verbatim>\<open>prenorm\<close>, and
  leaves the gradient of every other parameter as it was.
\<close>

theorem before_step_scales_out_and_prenorm:
  "before_step c step G p =
     (if p \<in> set (scaled_grad_parameters c) then map_option (map (\<lambda>v. v * 0.2)) (G p) else G p)
   \<and> (p \<in> set (scaled_grad_parameters c) \<longleftrightarrow>
     (\<exists>i. i < length (layers (diff c)) \<and>
        (p \<in> set (Conv1d_parameters [Name ''diff'', Name ''layers'', Index i, Name ''out''] (cab_out (layers (diff c) ! i)))
         \<or> p \<in> set (GroupNorm_parameters [Name ''diff'', Name ''layers'', Index i, Name ''prenorm'']
                      (prenorm (layers (diff c) ! i))))))"
proof -
  have "before_step c step G p =
     (if p \<in> set (scaled_grad_parameters c) then map_option (map (\<lambda>v. v * 0.2)) (G p) else G p)"
    unfolding before_step_def using distinct_scaled_grad_parameters by (rule foldl_scale_grad)
  then show ?thesis using scaled_grad_parameters_iff [of p c] by simp
qed

section \<open>Dummy parameter additions\<close>

lemma add_scalar_zero [simp]: "add_scalar t 0 = t"
  by (simp add: add_scalar_def map_idI)

lemma foldl_ignore [simp]: "foldl (\<lambda>a p. a) a ps = a"
  by (induction ps) simp_all

lemma bindE_return [simp]: "bindE r (\<lambda>v. Inr v) = r"
  by (cases r) simp_all

lemma foldl_add_scalar_zero:
  "foldl (\<lambda>proj p. add_scalar proj (mean p * 0)) proj ps = proj"
  by simp

text \<open>
  Claim C5.  Over exact arithmetic the dummy additions change nothing: the output of
  \<^verbatim>\<open>TransformerDiffusion.forward\<close> is the output of the \<^verbatim>\<open>out\<close> head, and the
  projection handed on by \<^verbatim>\<open>TransformerDiffusionWithCheaterLatent.forward\<close> is the
  encoder's output.  (In floating point the identity needs every mean to be finite.)
\<close>

theorem dummy_parameter_additions_are_identities:
  "add_scalar out (extraneous_addition [unconditioned_embedding m] * 0) = out
   \<and> TransformerDiffusion_forward fw m d x timesteps prior conditioning_free =
       bindE (code_embedding m d x prior conditioning_free) (\<lambda>code_emb.
       bindE (trunk fw m d x timesteps code_emb) (out_head m))
   \<and> cheater_prior c truth_mel = encoder c truth_mel"
  by (simp add: TransformerDiffusion_forward_def cheater_prior_def)

text \<open>
  Claim C6.  The value passed as \<^verbatim>\<open>prior\<close> to the inner model is the output of the
  encoder on \<^verbatim>\<open>truth_mel\<close>; when the encoder raises, so does the call.  This holds for
  either value of \<^verbatim>\<open>conditioning_free\<close>, in particular for \<^verbatim>\<open>False\<close>.
\<close>

theorem cheater_latent_is_the_prior:
  "TransformerDiffusionWithCheaterLatent_forward fw c d x timesteps truth_mel conditioning_free =
     bindE (encoder c truth_mel) (\<lambda>proj.
       TransformerDiffusion_forward fw (diff c) d x timesteps (Some proj) conditioning_free)"
  by (simp add: TransformerDiffusionWithCheaterLatent_forward_def cheater_prior_def)

section \<open>Conditioning-free calls\<close>

lemma repeat_unconditioned:
  assumes "has_shape 1 C 1 t"
  shows "repeat t B 1 L = replicate B (map (\<lambda>r. replicate L (r ! 0)) (t ! 0))"
proof -
  from assms obtain u where t: "t = [u]" and u: "list_all (\<lambda>r. length r = 1) u"
    by (cases t) (auto simp: has_shape_def)
  have "map (tile L) u = map (\<lambda>r. replicate L (r ! 0)) u"
  proof (rule map_cong [OF refl])
    fix r assume "r \<in> set u"
    with u have "length r = 1" by (simp add: list_all_iff)
    then obtain v where "r = [v]" by (cases r) auto
    then show "tile L r = replicate L (r ! 0)" by simp
  qed
  then show ?thesis by (simp add: repeat_def t)
qed

text \<open>
  Claim C7.  With \<^verbatim>\<open>conditioning_free=True\<close> the result of
  \<^verbatim>\<open>TransformerDiffusion.forward\<close> is the same for any two values of \<^verbatim>\<open>prior\<close>
  (\<open>None\<close> included), the other arguments, the model and the random draws being equal:
  the conditioning embedding is the unconditioned embedding repeated over the batch and
  the sequence of \<open>x\<close>.
\<close>

theorem conditioning_free_ignores_prior:
  "TransformerDiffusion_forward fw m d x timesteps prior1 True =
   TransformerDiffusion_forward fw m d x timesteps prior2 True
   \<and> code_embedding m d x prior1 True = Inr (repeat (unconditioned_embedding m) (size0 x) 1 (size2 x))
   \<and> (has_shape 1 C 1 (unconditioned_embedding m) \<longrightarrow>
        has_shape (size0 x) C (size2 x) (repeat (unconditioned_embedding m) (size0 x) 1 (size2 x)) \<and>
        (\<forall>b<size0 x. \<forall>c<C. \<forall>l<size2 x.
           repeat (unconditioned_embedding m) (size0 x) 1 (size2 x) ! b ! c ! l =
           unconditioned_embedding m ! 0 ! c ! 0))"
proof -
  have "has_shape (size0 x) C (size2 x) (repeat (unconditioned_embedding m) (size0 x) 1 (size2 x)) \<and>
        (\<forall>b<size0 x. \<forall>c<C. \<forall>l<size2 x.
           repeat (unconditioned_embedding m) (size0 x) 1 (size2 x) ! b ! c ! l =
           unconditioned_embedding m ! 0 ! c ! 0)"
    if ue: "has_shape 1 C 1 (unconditioned_embedding m)"
  proof -
    have "repeat (unconditioned_embedding m) (size0 x) 1 (size2 x) =
        replicate (size0 x) (map (\<lambda>r. replicate (size2 x) (r ! 0)) (unconditioned_embedding m ! 0))"
      using ue by (rule repeat_unconditioned)
    moreover have "length (unconditioned_embedding m ! 0) = C"
      using ue by (simp add: has_shape_nth)
    ultimately show ?thesis by (simp add: has_shape_nth)
  qed
  then show ?thesis
    by (simp add: TransformerDiffusion_forward_def code_embedding_def)
qed

theorem conditioning_free_ignores_prior_witness:
  "has_shape 1 2 1 (unconditioned_embedding ex_model) \<and>
   TransformerDiffusion_forward ex_framework ex_model ex_draws ex_x [600, 600] None True =
   TransformerDiffusion_forward ex_framework ex_model ex_draws ex_x [600, 600] (Some ex_prior) True \<and>
   code_embedding ex_model ex_draws ex_x None True =
     Inr (repeat (unconditioned_embedding ex_model) (size0 ex_x) 1 (size2 ex_x)) \<and>
   has_shape 2 2 3 (repeat (unconditioned_embedding ex_model) (size0 ex_x) 1 (size2 ex_x)) \<and>
   repeat (unconditioned_embedding ex_model) (size0 ex_x) 1 (size2 ex_x) ! 1 ! 1 ! 2 =
     unconditioned_embedding ex_model ! 0 ! 1 ! 0"
proof -
  have h: "has_shape 1 2 1 (unconditioned_embedding ex_model)" by (simp add: eval_defs)
  have s: "size0 ex_x = 2" "size2 ex_x = 3" by (simp_all add: eval_defs)
  from conditioning_free_ignores_prior [of ex_framework ex_model ex_draws ex_x "[600, 600]" None "Some ex_prior" 2] h s
  show ?thesis by simp
qed

section \<open>Evaluation mode\<close>

text \<open>The attention blocks, whose code is not among the sources, are functions of their
  mask and input here: they are taken to draw no random numbers.\<close>

lemma Dropout_forward_eval [simp]: "\<not> drop_training d \<Longrightarrow> Dropout_forward d k x = x"
  by (simp add: Dropout_forward_def)

lemma SubBlock_forward_eval:
  "\<not> drop_training (sb_dropout sb) \<Longrightarrow>
   SubBlock_forward g sb k1 k2 x e = SubBlock_forward g sb k1' k2' x e"
  by (simp add: SubBlock_forward_def SubBlock_attention_def)

lemma ConcatAttentionBlock_forward_eval:
  "\<not> drop_training (sb_dropout (block1 blk)) \<Longrightarrow> \<not> drop_training (sb_dropout (block2 blk)) \<Longrightarrow>
   ConcatAttentionBlock_forward g blk ks x e = ConcatAttentionBlock_forward g blk ks' x e"
  unfolding ConcatAttentionBlock_forward_def
  using SubBlock_forward_eval [of "block1 blk" g "ks 0" "ks 1" _ e "ks' 0" "ks' 1"]
    SubBlock_forward_eval [of "block2 blk" g "ks 2" "ks 3" _ e "ks' 2" "ks' 3"]
  by simp

lemma run_layers_eval:
  "list_all (\<lambda>blk. \<not> drop_training (sb_dropout (block1 blk)) \<and> \<not> drop_training (sb_dropout (block2 blk))) ls \<Longrightarrow>
   run_layers g ks i ls x e = run_layers g ks' i ls x e"
proof (induction ls arbitrary: i x)
  case Nil
  then show ?case by simp
next
  case (Cons blk ls)
  then have "ConcatAttentionBlock_forward g blk (ks i) x e = ConcatAttentionBlock_forward g blk (ks' i) x e"
    by (intro ConcatAttentionBlock_forward_eval) simp_all
  moreover have "run_layers g ks (Suc i) ls x' e = run_layers g ks' (Suc i) ls x' e" for x'
    using Cons by simp
  ultimately show ?case by (simp add: checkpoint_def)
qed

lemma eval_mode_TransformerDiffusion_eval: "eval_mode (TransformerDiffusion_eval m)"
  by (simp add: eval_mode_def TransformerDiffusion_eval_def list_all_iff ConcatAttentionBlock_eval_def
      SubBlock_eval_def)

text \<open>
  Claim C10.  When the module is not in training mode the masking step returns the
  projected embedding as it is, so the conditioning embedding is the projection of
  \<^verbatim>\<open>prior\<close> interpolated to the length of \<open>x\<close>; and in evaluation mode two calls with
  the same inputs and model give the same result whatever the random draws.
\<close>

theorem eval_mode_is_deterministic:
  "(\<not> td_training m \<longrightarrow>
      mask_conditioning m d x code_emb = Inr code_emb \<and>
      code_embedding m d x (Some prior) False =
        bindE (Conv1d_forward (input_converter m) prior) (\<lambda>code_emb. interpolate_nearest code_emb (size2 x)))
   \<and> (eval_mode m \<longrightarrow>
      TransformerDiffusion_forward fw m d x timesteps p False =
      TransformerDiffusion_forward fw m d' x timesteps p False)"
proof -
  have a: "mask_conditioning m d x ce = Inr ce" if "\<not> td_training m" for d ce
    using that by (simp add: mask_conditioning_def)
  have b: "code_embedding m d x p False = code_embedding m d' x p False" if "\<not> td_training m"
    by (simp add: code_embedding_def a [OF that] split: option.splits)
  have c: "trunk fw m d x timesteps ce = trunk fw m d' x timesteps ce" if "eval_mode m" for ce
    using that run_layers_eval [of "layers m" "gelu fw" "keeps d" 0 _ _ "keeps d'"]
    by (simp add: trunk_def eval_mode_def)
  have e: "code_embedding m d x (Some prior) False =
        bindE (Conv1d_forward (input_converter m) prior) (\<lambda>code_emb. interpolate_nearest code_emb (size2 x))"
    if "\<not> td_training m"
    by (simp add: code_embedding_def a [OF that])
  have f: "TransformerDiffusion_forward fw m d x timesteps p False =
      TransformerDiffusion_forward fw m d' x timesteps p False" if "eval_mode m"
  proof -
    from that have "\<not> td_training m" by (simp add: eval_mode_def)
    then show ?thesis
      by (simp add: TransformerDiffusion_forward_def b c [OF that])
  qed
  show ?thesis
    using a e f by blast
qed

theorem eval_mode_is_deterministic_witness:
  "\<not> td_training (TransformerDiffusion_eval ex_model_1) \<and>
   eval_mode (TransformerDiffusion_eval ex_model_1) \<and>
   mask_conditioning (TransformerDiffusion_eval ex_model_1) ex_draws ex_x ex_prior = Inr ex_prior \<and>
   code_embedding (TransformerDiffusion_eval ex_model_1) ex_draws ex_x (Some ex_prior) False =
     bindE (Conv1d_forward (input_converter (TransformerDiffusion_eval ex_model_1)) ex_prior)
       (\<lambda>code_emb. interpolate_nearest code_emb (size2 ex_x)) \<and>
   TransformerDiffusion_forward ex_framework (TransformerDiffusion_eval ex_model_1) ex_draws ex_x [600, 600]
     (Some ex_prior) False =
   TransformerDiffusion_forward ex_framework (TransformerDiffusion_eval ex_model_1) ex_draws' ex_x [600, 600]
     (Some ex_prior) False"
proof -
  have h1: "\<not> td_training (TransformerDiffusion_eval ex_model_1)"
    by (simp add: TransformerDiffusion_eval_def)
  have h2: "eval_mode (TransformerDiffusion_eval ex_model_1)"
    by (rule eval_mode_TransformerDiffusion_eval)
  from eval_mode_is_deterministic [of "TransformerDiffusion_eval ex_model_1" ex_draws ex_x ex_prior ex_prior
      ex_framework "[600, 600]" "Some ex_prior" ex_draws'] h1 h2
  show ?thesis by blast
qed

section \<open>The attention branch of a sub-block\<close>






section \<open>The channels of the projected block embedding\<close>

lemma Conv1d_forward_kernel_one:
  assumes "has_shape B C M t" "0 < B" "0 < C" "0 < M"
  shows "Conv1d_forward (Conv1d_init r C D 1 0 hb) t = Inr (map (conv_batch (Conv1d_init r C D 1 0 hb)) t)"
    and "has_shape B D M (map (conv_batch (Conv1d_init r C D 1 0 hb)) t)"
proof -
  show "Conv1d_forward (Conv1d_init r C D 1 0 hb) t = Inr (map (conv_batch (Conv1d_init r C D 1 0 hb)) t)"
    using assms by (intro Conv1d_forward_shape(1)) auto
  show "has_shape B D M (map (conv_batch (Conv1d_init r C D 1 0 hb)) t)"
    using has_shape_conv_batch [OF assms(1,3), of "Conv1d_init r C D 1 0 hb"] by simp
qed

lemma ex_blk_init: "ConcatAttentionBlock_init ex_env [5, 0] 8 8 1 0 True = Inr ex_blk"
  by (simp add: ex_blk_def ConcatAttentionBlock_init_def SubBlock_init_def Dropout_init_def
      GroupNorm_init_def ex_env_def)

text \<open>
  Claim C3, as the code has it.  The projection of the block embedding has the channel
  count of the sub-block's own input, so that it can be concatenated with that input along
  the sequence: \<open>trunk_dim\<close> in the first sub-block and
  \<open>trunk_dim + 2 * contraction_dim\<close> in the second.  In the second sub-block it is
  not \<open>trunk_dim\<close>, as the counterexample shows for a block with \<open>trunk_dim = 8\<close> and
  \<open>contraction_dim = 8\<close>.
\<close>

theorem blk_emb_projection_channels:
  assumes init: "ConcatAttentionBlock_init env site trunk_dim contraction_dim heads dropout masking = Inr blk"
    and e: "has_shape B trunk_dim M blk_emb" and pos: "0 < B" "0 < trunk_dim" "0 < M"
  shows "\<exists>t1 t2. Conv1d_forward (blk_emb_proj (block1 blk)) blk_emb = Inr t1 \<and> has_shape B trunk_dim M t1 \<and>
           Conv1d_forward (blk_emb_proj (block2 blk)) blk_emb = Inr t2 \<and>
           has_shape B (trunk_dim + contraction_dim * 2) M t2"
proof -
  have p1: "blk_emb_proj (block1 blk) = Conv1d_init (rnd env ((site @ [1]) @ [0])) trunk_dim trunk_dim 1 0 True"
    using ConcatAttentionBlock_init_Inr(2) [OF init] by (rule SubBlock_init_Inr)
  have p2: "blk_emb_proj (block2 blk) =
      Conv1d_init (rnd env ((site @ [2]) @ [0])) trunk_dim (trunk_dim + contraction_dim * 2) 1 0 True"
    using ConcatAttentionBlock_init_Inr(3) [OF init] by (rule SubBlock_init_Inr)
  show ?thesis
    unfolding p1 p2 using Conv1d_forward_kernel_one [OF e pos] by blast
qed

theorem blk_emb_projection_channels_witness:
  "ConcatAttentionBlock_init ex_env [5, 0] 8 8 1 0 True = Inr ex_blk \<and> has_shape 1 8 1 ex_blk_emb \<and>
   (\<exists>t1 t2. Conv1d_forward (blk_emb_proj (block1 ex_blk)) ex_blk_emb = Inr t1 \<and> has_shape 1 8 1 t1 \<and>
           Conv1d_forward (blk_emb_proj (block2 ex_blk)) ex_blk_emb = Inr t2 \<and>
           has_shape 1 (8 + 8 * 2) 1 t2)"
proof -
  have h2: "has_shape 1 8 1 ex_blk_emb" by (simp add: ex_blk_emb_def has_shape_nth)
  have p1: "0 < (1 :: nat)" and p8: "0 < (8 :: nat)" by simp_all
  from blk_emb_projection_channels [OF ex_blk_init h2 p1 p8 p1] ex_blk_init h2
  show ?thesis by blast
qed

theorem block2_projection_channels_counterexample:
  "\<exists>t. Conv1d_forward (blk_emb_proj (block2 ex_blk)) ex_blk_emb = Inr t \<and> size1 t = 24 \<and> size1 t \<noteq> 8"
proof -
  have p2: "blk_emb_proj (block2 ex_blk) = Conv1d_init (rnd ex_env (([5, 0] @ [2]) @ [0])) 8 (8 + 8 * 2) 1 0 True"
    using ConcatAttentionBlock_init_Inr(3) [OF ex_blk_init] by (rule SubBlock_init_Inr)
  have h2: "has_shape 1 8 1 ex_blk_emb" by (simp add: ex_blk_emb_def has_shape_nth)
  have p1: "0 < (1 :: nat)" and p8: "0 < (8 :: nat)" by simp_all
  define t where "t = map (conv_batch (blk_emb_proj (block2 ex_blk))) ex_blk_emb"
  have "Conv1d_forward (blk_emb_proj (block2 ex_blk)) ex_blk_emb = Inr t"
    unfolding t_def p2 using h2 p1 p8 p1 by (rule Conv1d_forward_kernel_one)
  moreover have "has_shape 1 (8 + 8 * 2) 1 t"
    unfolding t_def p2 using h2 p1 p8 p1 by (rule Conv1d_forward_kernel_one)
  then have "size1 t = 24" using has_shape_sizes(2) [of 1 "8 + 8 * 2" 1 t] by simp
  ultimately show ?thesis by simp
qed

section \<open>Freezing all but the code converters\<close>

lemma freeze_raises: "freeze_except_code_converters m = Inl AttributeError"
  by (simp add: freeze_except_code_converters_def module_getattr_def TransformerDiffusion_attributes_def)

text \<open>
  Claim C9, as the code has it.  With \<^verbatim>\<open>freeze_except_code_converters=True\<close> the
  constructor never returns a model: it raises the error of the first layer constructor
  that fails, and an \<^verbatim>\<open>AttributeError\<close> (reading \<^verbatim>\<open>self.code_converter\<close>) whenever
  all of them succeed.  The counterexample is a channel count that the eight groups of
  \<^verbatim>\<open>prenorm\<close> do not divide: the \<^verbatim>\<open>ValueError\<close> of line 50 comes first.
\<close>

theorem freeze_except_code_converters_never_constructs:
  assumes "arg_freeze_except_code_converters a"
  shows "TransformerDiffusion_init env a =
     (case mapE (\<lambda>i. ConcatAttentionBlock_init env [5, i] (arg_model_channels a) (arg_contraction_dim a)
                        (arg_num_heads a) (arg_dropout a) True) [0..<arg_num_layers a] of
        Inl e \<Rightarrow> Inl e
      | Inr ls \<Rightarrow> (case normalization env (arg_model_channels a) of
                    Inl e \<Rightarrow> Inl e
                  | Inr nm \<Rightarrow> Inl AttributeError))"
  using assms
  by (simp add: TransformerDiffusion_init_def freeze_raises Let_def bindE_def split: sum.splits)

theorem freeze_except_code_converters_never_constructs_witness:
  "arg_freeze_except_code_converters (ex_args 8 1 True) \<and>
   TransformerDiffusion_init ex_env (ex_args 8 1 True) = Inl AttributeError"
proof -
  have h: "arg_freeze_except_code_converters (ex_args 8 1 True)" by (simp add: ex_args_def)
  have l: "mapE (\<lambda>i. ConcatAttentionBlock_init ex_env [5, i] (arg_model_channels (ex_args 8 1 True))
              (arg_contraction_dim (ex_args 8 1 True)) (arg_num_heads (ex_args 8 1 True))
              (arg_dropout (ex_args 8 1 True)) True) [0..<arg_num_layers (ex_args 8 1 True)] = Inr [ex_blk]"
    using ex_blk_init by (simp add: ex_args_def)
  have n: "normalization ex_env (arg_model_channels (ex_args 8 1 True)) = Inr (\<lambda>t. Inr t)"
    by (simp add: ex_env_def)
  have "TransformerDiffusion_init ex_env (ex_args 8 1 True) = Inl AttributeError"
    unfolding freeze_except_code_converters_never_constructs [OF h, of ex_env] l n by simp
  with h show ?thesis by blast
qed

theorem freeze_except_code_converters_counterexample:
  "TransformerDiffusion_init ex_env (ex_args 12 1 True) = Inl ValueError \<and>
   TransformerDiffusion_init ex_env (ex_args 12 1 True) \<noteq> Inl AttributeError"
  by (simp add: TransformerDiffusion_init_def ConcatAttentionBlock_init_def GroupNorm_init_def ex_args_def)

end
